theory Spec2Isabelle
  imports Complex_Main
begin

section \<open>Network Performance Tester: data model\<close>

text \<open>
  The embedding follows \<^verbatim>\<open>npt.py\<close>. The external libraries (ping3, speedtest, scapy,
  dnspython) are not part of the program; what they answer is given by an environment
  record, so that every theorem quantifies over all behaviours of the network. Durations
  are in seconds, latencies in milliseconds. Logging and \<^verbatim>\<open>time.sleep\<close> have no effect on
  the results and are left out.
\<close>

type_synonym seconds = rat

text \<open>Exceptions that can be raised inside the methods of \<^verbatim>\<open>NetworkTester\<close>.\<close>

datatype error =
    TimeoutException
  | PyException string
  | ZeroDivisionError
  | StatisticsError
  | CollaboratorError
  | KeyError

text \<open>An external call either returns a value or raises.\<close>

datatype 'a outcome = Returns 'a | Raises

text \<open>
  What \<^verbatim>\<open>ping(host)\<close> of ping3 returns: the delay in seconds, \<^verbatim>\<open>None\<close> when no reply comes
  in time, and \<^verbatim>\<open>False\<close> when the ping fails with an error (a host name that does not
  resolve, an unreachable destination).
\<close>

datatype ping_result = Delay seconds | NoReply | PingError

text \<open>
  One \<^verbatim>\<open>sr1(packet, timeout=1)\<close> call: a reply or \<^verbatim>\<open>None\<close>, or an exception, each after
  the given time.
\<close>

datatype probe = Replied seconds | Silent seconds | Failed seconds

text \<open>
  The values stored in \<^verbatim>\<open>self.results\<close>: dictionaries with a fixed set of keys, one shape
  per metric. The entry of a metric is a \<open>metric_result option\<close>, with \<open>None\<close> for Python's
  \<^verbatim>\<open>None\<close>.
\<close>

datatype metric_result =
    Timing (average_ms: rat) (min_ms: rat) (max_ms: rat)
  | PacketLoss (loss_rate_percent: rat) (packets_sent: int) (packets_received: int)
  | Bandwidth (download_mbps: "rat option") (upload_mbps: "rat option")
  | MtuSize (size_bytes: int)

type_synonym report = "string \<rightharpoonup> metric_result option"

text \<open>
  The environment. \<open>ping e k\<close> is the result of the \<open>k\<close>-th call of \<^verbatim>\<open>ping\<close> made by the
  tester; \<open>sr1 e k n\<close> is the result of the \<open>k\<close>-th probe of one MTU search, sent as a packet
  of \<open>n\<close> bytes. A number that a library returns as a float is the double nearest to the
  number given here.
\<close>

record env =
  ping :: "nat \<Rightarrow> ping_result outcome"
  speedtest_new :: "unit outcome"
  get_best_server :: "unit outcome"
  download :: "rat outcome"
  upload :: "rat outcome"
  sr1 :: "nat \<Rightarrow> nat \<Rightarrow> probe"
  resolver_new :: "unit outcome"
  resolve :: "string \<Rightarrow> seconds outcome"

text \<open>
  The state of a \<^verbatim>\<open>NetworkTester\<close>: its two parameters and the results dictionary, with the
  number of pings made so far, and the writes that MTU worker threads abandoned by
  \<^verbatim>\<open>measure_mtu\<close> will still make to \<^verbatim>\<open>self.results['mtu']\<close> when they finish.
\<close>

record tester =
  target_host :: string
  sample_size :: int
  results :: report
  pings_made :: nat
  abandoned :: "metric_result option list"

definition init :: "string \<Rightarrow> int \<Rightarrow> tester" where
  "init host n =
     \<lparr>target_host = host, sample_size = n, results = Map.empty, pings_made = 0, abandoned = []\<rparr>"

section \<open>Python floats\<close>

text \<open>
  A Python float is a binary64 number. The finite ones are modelled by the rationals they
  denote, and every operation rounds its exact result to the nearest double, a tie to the
  even significand (53 bits; below 2 to the power -1022 the spacing stays that of the
  smallest normal numbers). Results beyond
  the largest double are not modelled: no quantity of this program comes near it.
\<close>

text \<open>The number of binary digits of a positive integer.\<close>

function bit_length :: "int \<Rightarrow> int" where
  "bit_length n = (if n \<le> 0 then 0 else 1 + bit_length (n div 2))"
  by pat_completeness auto
termination
  by (relation "measure nat") auto

declare bit_length.simps [simp del]

text \<open>Rounding to the nearest integer, a tie to the even one.\<close>

definition half_even :: "rat \<Rightarrow> int" where
  "half_even y =
     (let f = \<lfloor>y\<rfloor>; d = y - of_int f
      in if d < 1 / 2 then f
         else if 1 / 2 < d then f + 1
         else if even f then f else f + 1)"

definition pow2 :: "int \<Rightarrow> rat" where
  "pow2 n = (if 0 \<le> n then 2 ^ nat n else 1 / 2 ^ nat (- n))"

text \<open>
  The binary exponent of a number other than 0: the \<open>e\<close> such that \<open>|x|\<close> is at least
  \<open>pow2 e\<close> and less than \<open>pow2 (e + 1)\<close>.
\<close>

definition exponent :: "rat \<Rightarrow> int" where
  "exponent x =
     (let (p, q) = quotient_of \<bar>x\<bar>;
          e0 = bit_length p - bit_length q
      in if pow2 e0 \<le> \<bar>x\<bar> then e0 else e0 - 1)"

definition to_double :: "rat \<Rightarrow> rat" where
  "to_double x =
     (if x = 0 then 0
      else (let e = max (exponent x) (- 1022); q = pow2 (e - 52)
            in of_int (half_even (x / q)) * q))"

text \<open>Float multiplication, division and subtraction.\<close>

definition fmul :: "rat \<Rightarrow> rat \<Rightarrow> rat" where
  "fmul a b = to_double (a * b)"

definition fdiv :: "rat \<Rightarrow> rat \<Rightarrow> rat" where
  "fdiv a b = to_double (a / b)"

definition fsub :: "rat \<Rightarrow> rat \<Rightarrow> rat" where
  "fsub a b = to_double (a - b)"

text \<open>
  \<^verbatim>\<open>round(x, 2)\<close>: the exact value of \<open>x\<close> is rounded to the nearest multiple of 0.01, a tie
  to the even one, and the result is the double nearest to that.
\<close>

definition round2 :: "rat \<Rightarrow> rat" where
  "round2 x = to_double (of_int (half_even (x * 100)) / 100)"

text \<open>
  \<^verbatim>\<open>statistics.mean\<close> on a non-empty list: the exact mean, converted to a float at the end.
\<close>

definition mean :: "rat list \<Rightarrow> rat" where
  "mean xs = to_double (sum_list xs / of_nat (length xs))"

section \<open>Statistics\<close>

text \<open>
  The dictionary built from a list of times by \<^verbatim>\<open>measure_latency\<close>, \<^verbatim>\<open>measure_jitter\<close> and
  \<^verbatim>\<open>measure_dns_resolution\<close>: \<^verbatim>\<open>statistics.mean\<close>, \<^verbatim>\<open>min\<close> and \<^verbatim>\<open>max\<close>, each rounded.
  \<^verbatim>\<open>statistics.mean\<close> raises on an empty list.
\<close>

definition timing_stats :: "rat list \<Rightarrow> error + metric_result" where
  "timing_stats xs =
     (case xs of
        [] \<Rightarrow> Inl StatisticsError
      | x # rest \<Rightarrow>
          Inr (Timing (round2 (mean xs))
                      (round2 (fold min rest x))
                      (round2 (fold max rest x))))"

section \<open>Sample-based metrics\<close>

text \<open>
  The sampling loop of \<^verbatim>\<open>measure_latency\<close> and \<^verbatim>\<open>measure_jitter\<close>: \<open>n\<close> more pings, the
  \<open>k\<close>-th call next, the latencies collected so far in \<open>acc\<close>. It returns the list (or the
  exception that left the loop) and the number of pings made. The test is
  \<^verbatim>\<open>result is not None\<close>, which \<^verbatim>\<open>False\<close> passes, and \<^verbatim>\<open>False * 1000\<close> is 0.
\<close>

fun collect_latencies :: "env \<Rightarrow> nat \<Rightarrow> nat \<Rightarrow> rat list \<Rightarrow> (error + rat list) \<times> nat" where
  "collect_latencies e 0 k acc = (Inr acc, k)"
| "collect_latencies e (Suc n) k acc =
     (case ping e k of
        Raises \<Rightarrow> (Inl CollaboratorError, Suc k)
      | Returns NoReply \<Rightarrow> collect_latencies e n (Suc k) acc
      | Returns (Delay r) \<Rightarrow> collect_latencies e n (Suc k) (acc @ [fmul (to_double r) 1000])
      | Returns PingError \<Rightarrow> collect_latencies e n (Suc k) (acc @ [0]))"

text \<open>Storing the outcome of a method body: the \<^verbatim>\<open>except Exception\<close> clause stores \<^verbatim>\<open>None\<close>.\<close>

definition store :: "string \<Rightarrow> error + metric_result \<Rightarrow> tester \<Rightarrow> tester" where
  "store key body t =
     (case body of
        Inr m \<Rightarrow> t\<lparr>results := (results t)(key \<mapsto> Some m)\<rparr>
      | Inl err \<Rightarrow> t\<lparr>results := (results t)(key \<mapsto> None)\<rparr>)"

definition measure_latency :: "env \<Rightarrow> tester \<Rightarrow> error + tester" where
  "measure_latency e t =
     (let (r, k) = collect_latencies e (nat (sample_size t)) (pings_made t) [];
          body = (case r of
                    Inl err \<Rightarrow> Inl err
                  | Inr latencies \<Rightarrow>
                      if latencies \<noteq> [] then timing_stats latencies
                      else Inl (PyException ''No valid latency measurements''))
      in Inr (store ''latency'' body (t\<lparr>pings_made := k\<rparr>)))"

text \<open>
  The counting loop of \<^verbatim>\<open>measure_packet_loss\<close>, with the same test
  \<^verbatim>\<open>ping(...) is not None\<close>.
\<close>

fun count_received :: "env \<Rightarrow> nat \<Rightarrow> nat \<Rightarrow> int \<Rightarrow> (error + int) \<times> nat" where
  "count_received e 0 k received = (Inr received, k)"
| "count_received e (Suc n) k received =
     (case ping e k of
        Raises \<Rightarrow> (Inl CollaboratorError, Suc k)
      | Returns NoReply \<Rightarrow> count_received e n (Suc k) received
      | Returns (Delay r) \<Rightarrow> count_received e n (Suc k) (received + 1)
      | Returns PingError \<Rightarrow> count_received e n (Suc k) (received + 1))"

definition measure_packet_loss :: "env \<Rightarrow> tester \<Rightarrow> error + tester" where
  "measure_packet_loss e t =
     (let sent = sample_size t;
          (r, k) = count_received e (nat sent) (pings_made t) 0;
          body = (case r of
                    Inl err \<Rightarrow> Inl err
                  | Inr received \<Rightarrow>
                      if sent = 0 then Inl ZeroDivisionError
                      else Inr (PacketLoss
                                  (round2 (fmul (fdiv (of_int (sent - received)) (of_int sent)) 100))
                                  sent received))
      in Inr (store ''packet_loss'' body (t\<lparr>pings_made := k\<rparr>)))"

text \<open>
  The differences of \<^verbatim>\<open>measure_jitter\<close>:
  \<^verbatim>\<open>for i in range(1, len(latencies)): abs(latencies[i] - latencies[i-1])\<close>.
\<close>

definition differences :: "rat list \<Rightarrow> rat list" where
  "differences latencies =
     map (\<lambda>i. \<bar>fsub (latencies ! i) (latencies ! (i - 1))\<bar>) [1..<length latencies]"

definition measure_jitter :: "env \<Rightarrow> tester \<Rightarrow> error + tester" where
  "measure_jitter e t =
     (let (r, k) = collect_latencies e (nat (sample_size t)) (pings_made t) [];
          body = (case r of
                    Inl err \<Rightarrow> Inl err
                  | Inr latencies \<Rightarrow>
                      if length latencies \<ge> 2 then timing_stats (differences latencies)
                      else Inl (PyException ''Insufficient samples for jitter calculation''))
      in Inr (store ''jitter'' body (t\<lparr>pings_made := k\<rparr>)))"

section \<open>Bandwidth\<close>

text \<open>
  \<^verbatim>\<open>measure_bandwidth\<close>: a failure of the constructor or of \<^verbatim>\<open>get_best_server\<close> leaves
  the outer \<^verbatim>\<open>try\<close>; a failure of \<^verbatim>\<open>download\<close> or \<^verbatim>\<open>upload\<close> is caught by its own
  \<^verbatim>\<open>try\<close> and gives \<^verbatim>\<open>None\<close> for that field. The outer handler stores a dictionary too.
\<close>

definition measure_bandwidth :: "env \<Rightarrow> tester \<Rightarrow> error + tester" where
  "measure_bandwidth e t =
     (let body =
        (case speedtest_new e of
           Raises \<Rightarrow> Inl CollaboratorError
         | Returns st \<Rightarrow>
             (case get_best_server e of
                Raises \<Rightarrow> Inl (PyException ''Failed to find speedtest server'')
              | Returns u \<Rightarrow>
                  (let download_speed =
                         (case download e of
                            Returns bits \<Rightarrow> Some (round2 (fdiv (to_double bits) 1000000))
                          | Raises \<Rightarrow> None);
                       upload_speed =
                         (case upload e of
                            Returns bits \<Rightarrow> Some (round2 (fdiv (to_double bits) 1000000))
                          | Raises \<Rightarrow> None)
                   in Inr (Bandwidth download_speed upload_speed))))
      in Inr (case body of
                Inr m \<Rightarrow> t\<lparr>results := (results t)(''bandwidth'' \<mapsto> Some m)\<rparr>
              | Inl err \<Rightarrow> t\<lparr>results := (results t)(''bandwidth'' \<mapsto> Some (Bandwidth None None))\<rparr>))"

section \<open>MTU discovery\<close>

definition timeout_seconds :: seconds where
  "timeout_seconds = 10"

text \<open>
  The probe is \<^verbatim>\<open>IP(dst=self.target_host)/TCP(dport=80)\<close>: 40 bytes of headers. The
  assignment \<^verbatim>\<open>packet.load = "X" * (mtu_size - 40)\<close> names a field of the \<^verbatim>\<open>Raw\<close> layer, which
  this packet does not have, and adds no payload to it: the packet that is sent has 40
  bytes whatever the candidate size is.
\<close>

definition packet_length :: "int \<Rightarrow> nat" where
  "packet_length mtu_size = 40"

text \<open>
  The loop of \<^verbatim>\<open>measure_mtu_with_timeout\<close>, with the candidate size, the number of probes
  sent and the value of \<^verbatim>\<open>time.time() - start_time\<close>. Time passes only inside \<^verbatim>\<open>sr1\<close>.
  The result comes with the time the search took.
\<close>

function mtu_loop :: "env \<Rightarrow> int \<Rightarrow> nat \<Rightarrow> seconds \<Rightarrow> (error + int) \<times> seconds" where
  "mtu_loop e mtu_size k elapsed =
     (if mtu_size > 0 then
        if elapsed > timeout_seconds then (Inl TimeoutException, elapsed)
        else
          (case sr1 e k (packet_length mtu_size) of
             Failed d \<Rightarrow> (Inl CollaboratorError, elapsed + d)
           | Replied d \<Rightarrow> (Inr mtu_size, elapsed + d)
           | Silent d \<Rightarrow> mtu_loop e (mtu_size - 10) (Suc k) (elapsed + d))
      else (Inr mtu_size, elapsed))"
  by pat_completeness auto
termination
  by (relation "measure (\<lambda>(e, mtu_size, k, elapsed). nat mtu_size)") auto

declare mtu_loop.simps [simp del]

definition measure_mtu_with_timeout :: "env \<Rightarrow> (error + int) \<times> seconds" where
  "measure_mtu_with_timeout e = mtu_loop e 1500 0 0"

text \<open>
  \<^verbatim>\<open>_measure_mtu_thread\<close>: the value the worker thread writes to \<^verbatim>\<open>self.results['mtu']\<close>,
  and the time after its start at which it writes it.
\<close>

definition measure_mtu_thread :: "env \<Rightarrow> metric_result option \<times> seconds" where
  "measure_mtu_thread e =
     (case measure_mtu_with_timeout e of
        (Inr mtu_size, d) \<Rightarrow> (Some (MtuSize mtu_size), d)
      | (Inl err, d) \<Rightarrow> (None, d))"

text \<open>
  \<^verbatim>\<open>measure_mtu\<close>: the worker is started and joined for 10 seconds; starting it takes no
  time. When the worker has finished by then, its write is in the dictionary; otherwise
  \<^verbatim>\<open>is_alive()\<close> holds, the caller stores \<^verbatim>\<open>None\<close> and returns, and the worker, which nothing
  stops, still has its write to make.
\<close>

definition measure_mtu :: "env \<Rightarrow> tester \<Rightarrow> error + tester" where
  "measure_mtu e t =
     (let (written, d) = measure_mtu_thread e
      in if d > 10 then
           Inr (t\<lparr>results := (results t)(''mtu'' \<mapsto> None), abandoned := abandoned t @ [written]\<rparr>)
         else
           (let t' = t\<lparr>results := (results t)(''mtu'' \<mapsto> written)\<rparr>
            in if ''mtu'' \<notin> dom (results t') then Inr (t'\<lparr>results := (results t')(''mtu'' \<mapsto> None)\<rparr>)
               else Inr t'))"

text \<open>
  An abandoned worker finishes: its write reaches the dictionary. This happens at some
  moment after \<^verbatim>\<open>measure_mtu\<close> has returned, while the main thread measures the next metrics
  or before it prints and saves the report.
\<close>

definition worker_finishes :: "tester \<Rightarrow> tester" where
  "worker_finishes t =
     (case abandoned t of
        [] \<Rightarrow> t
      | written # rest \<Rightarrow> t\<lparr>results := (results t)(''mtu'' \<mapsto> written), abandoned := rest\<rparr>)"

section \<open>DNS resolution\<close>

definition domains :: "string list" where
  "domains = [''google.com'', ''microsoft.com'', ''amazon.com'']"

fun resolve_all :: "env \<Rightarrow> string list \<Rightarrow> rat list \<Rightarrow> error + rat list" where
  "resolve_all e [] resolution_times = Inr resolution_times"
| "resolve_all e (domain # rest) resolution_times =
     (case resolve e domain of
        Raises \<Rightarrow> Inl CollaboratorError
      | Returns d \<Rightarrow> resolve_all e rest (resolution_times @ [fmul (to_double d) 1000]))"

definition measure_dns_resolution :: "env \<Rightarrow> tester \<Rightarrow> error + tester" where
  "measure_dns_resolution e t =
     (let body =
        (case resolver_new e of
           Raises \<Rightarrow> Inl CollaboratorError
         | Returns resolver \<Rightarrow>
             (case resolve_all e domains [] of
                Inl err \<Rightarrow> Inl err
              | Inr resolution_times \<Rightarrow> timing_stats resolution_times))
      in Inr (store ''dns_resolution'' body t))"

section \<open>The driver\<close>

text \<open>
  \<^verbatim>\<open>metric_methods\<close> of \<^verbatim>\<open>main\<close>, in insertion order. The names are those that the argument
  parser accepts for \<^verbatim>\<open>--metrics\<close>.
\<close>

definition metric_methods :: "(string \<times> (env \<Rightarrow> tester \<Rightarrow> error + tester)) list" where
  "metric_methods =
     [(''latency'', measure_latency),
      (''packet_loss'', measure_packet_loss),
      (''bandwidth'', measure_bandwidth),
      (''jitter'', measure_jitter),
      (''mtu'', measure_mtu),
      (''dns'', measure_dns_resolution)]"

text \<open>\<^verbatim>\<open>for metric in args.metrics: metric_methods[metric]()\<close>\<close>

fun run_selected :: "env \<Rightarrow> string list \<Rightarrow> tester \<Rightarrow> error + tester" where
  "run_selected e [] t = Inr t"
| "run_selected e (metric # rest) t =
     (case map_of metric_methods metric of
        None \<Rightarrow> Inl KeyError
      | Some method \<Rightarrow>
          (case method e t of
             Inl err \<Rightarrow> Inl err
           | Inr t' \<Rightarrow> run_selected e rest t'))"

text \<open>\<^verbatim>\<open>for method in metric_methods.values(): method()\<close>\<close>

fun run_all :: "env \<Rightarrow> (env \<Rightarrow> tester \<Rightarrow> error + tester) list \<Rightarrow> tester \<Rightarrow> error + tester" where
  "run_all e [] t = Inr t"
| "run_all e (method # rest) t =
     (case method e t of
        Inl err \<Rightarrow> Inl err
      | Inr t' \<Rightarrow> run_all e rest t')"

text \<open>
  \<^verbatim>\<open>main\<close> after argument parsing: \<open>metrics\<close> is \<^verbatim>\<open>args.metrics\<close>, \<open>None\<close> when the option
  is not given. The tester it returns holds the dictionary as the main thread leaves it;
  the report that is printed and saved has, in addition, the writes of the abandoned
  workers that have finished by then.
\<close>

definition main :: "env \<Rightarrow> string \<Rightarrow> int \<Rightarrow> string list option \<Rightarrow> error + tester" where
  "main e target samples metrics =
     (let tester = init target samples
      in case metrics of
           None \<Rightarrow> run_all e (map snd metric_methods) tester
         | Some ms \<Rightarrow>
             if ms \<noteq> [] then run_selected e ms tester
             else run_all e (map snd metric_methods) tester)"

section \<open>Notions used to state the properties\<close>

text \<open>
  The latencies (in ms) of the successful pings, those that got a reply, among the \<open>n\<close>
  calls that start with the \<open>k\<close>-th, in the order of the calls.
\<close>

definition successful_latencies :: "env \<Rightarrow> nat \<Rightarrow> nat \<Rightarrow> rat list" where
  "successful_latencies e k n =
     concat (map (\<lambda>j. case ping e j of Returns (Delay r) \<Rightarrow> [fmul (to_double r) 1000] | _ \<Rightarrow> [])
               [k..<k + n])"

text \<open>
  Some of these calls raises; some of these calls returns \<^verbatim>\<open>False\<close>; each of these calls
  returns \<^verbatim>\<open>None\<close> or raises.
\<close>

definition ping_raises :: "env \<Rightarrow> nat \<Rightarrow> nat \<Rightarrow> bool" where
  "ping_raises e k n = list_ex (\<lambda>j. ping e j = Raises) [k..<k + n]"

definition ping_errors :: "env \<Rightarrow> nat \<Rightarrow> nat \<Rightarrow> bool" where
  "ping_errors e k n = list_ex (\<lambda>j. ping e j = Returns PingError) [k..<k + n]"

definition no_reply :: "env \<Rightarrow> nat \<Rightarrow> nat \<Rightarrow> bool" where
  "no_reply e k n =
     list_all (\<lambda>j. ping e j = Returns NoReply \<or> ping e j = Raises) [k..<k + n]"

text \<open>
  The entry of the report under a key after a call: \<open>None\<close> when the call raised or the key
  is missing, \<open>Some None\<close> when the entry is Python's \<^verbatim>\<open>None\<close>.
\<close>

definition entry :: "string \<Rightarrow> error + tester \<Rightarrow> metric_result option option" where
  "entry key r = (case r of Inr t \<Rightarrow> results t key | Inl err \<Rightarrow> None)"

text \<open>The key under which the method of a command-line metric name stores its result.\<close>

definition report_key :: "string \<Rightarrow> string" where
  "report_key metric = (if metric = ''dns'' then ''dns_resolution'' else metric)"

text \<open>
  Abandoned workers write to the key \<^verbatim>\<open>mtu\<close> only, and a tester that has abandoned one has
  that key already.
\<close>

definition pending_ok :: "tester \<Rightarrow> bool" where
  "pending_ok t = (abandoned t = [] \<or> ''mtu'' \<in> dom (results t))"

subsection \<open>Test environments\<close>

text \<open>Answers replayed from a list, then a default.\<close>

definition replay :: "'a list \<Rightarrow> 'a \<Rightarrow> nat \<Rightarrow> 'a" where
  "replay xs d k = (if k < length xs then xs ! k else d)"

text \<open>
  A simulated network: the pings answer as listed and get no reply afterwards, the MTU
  probes answer as given, and the speed test fails to upload.
\<close>

definition sim_env :: "ping_result outcome list \<Rightarrow> (nat \<Rightarrow> nat \<Rightarrow> probe) \<Rightarrow> env" where
  "sim_env pings probes =
     \<lparr>ping = replay pings (Returns NoReply), speedtest_new = Returns (), get_best_server = Returns (),
      download = Returns 94500000, upload = Raises, sr1 = probes, resolver_new = Returns (),
      resolve = (\<lambda>d. Returns (1 / 50))\<rparr>"

text \<open>A machine on which every external call raises.\<close>

definition broken_env :: env where
  "broken_env =
     \<lparr>ping = (\<lambda>k. Raises), speedtest_new = Raises, get_best_server = Raises,
      download = Raises, upload = Raises, sr1 = (\<lambda>k n. Failed 0), resolver_new = Raises,
      resolve = (\<lambda>d. Raises)\<rparr>"

section \<open>Python floats: examples\<close>

text \<open>
  The double 2.675 lies below the decimal 2.675, and \<^verbatim>\<open>round(2.675, 2)\<close> is 2.67;
  \<^verbatim>\<open>round(0.125, 2)\<close> is 0.12, the tie going to the even digit;
  \<^verbatim>\<open>round(0.073755 * 1000, 2)\<close> is 73.75 and \<^verbatim>\<open>round(93 / 160 * 100, 2)\<close> is 58.13, by the
  rounding of the product.
\<close>

lemma python_float_examples:
  "to_double (2675 / 1000) = 3011782250804019 / 1125899906842624"
  "round2 (to_double (2675 / 1000)) = to_double (267 / 100)"
  "round2 (1 / 8) = to_double (12 / 100)"
  "round2 (fmul (to_double (73755 / 1000000)) 1000) = 295 / 4"
  "round2 (fmul (fdiv 93 160) 100) = to_double (5813 / 100)"
  by code_simp+

section \<open>Lemmas on the sampling loops and the statistics\<close>

lemma window_Suc: "[k..<k + Suc n] = k # [Suc k..<Suc k + n]"
  by (simp add: upt_conv_Cons)

lemma successful_latencies_Suc:
  "successful_latencies e k (Suc n) =
     (case ping e k of Returns (Delay r) \<Rightarrow> [fmul (to_double r) 1000] | _ \<Rightarrow> [])
       @ successful_latencies e (Suc k) n"
  unfolding successful_latencies_def window_Suc by simp

lemma ping_raises_Suc:
  "ping_raises e k (Suc n) \<longleftrightarrow> ping e k = Raises \<or> ping_raises e (Suc k) n"
  unfolding ping_raises_def window_Suc by simp

lemma ping_errors_Suc:
  "ping_errors e k (Suc n) \<longleftrightarrow> ping e k = Returns PingError \<or> ping_errors e (Suc k) n"
  unfolding ping_errors_def window_Suc by simp

lemma no_reply_Suc:
  "no_reply e k (Suc n) \<longleftrightarrow>
     (ping e k = Returns NoReply \<or> ping e k = Raises) \<and> no_reply e (Suc k) n"
  unfolding no_reply_def window_Suc by simp

lemma collect_latencies_fst:
  "\<not> ping_errors e k n \<Longrightarrow>
   fst (collect_latencies e n k acc) =
     (if ping_raises e k n then Inl CollaboratorError
      else Inr (acc @ successful_latencies e k n))"
proof (induction n arbitrary: k acc)
  case 0
  show ?case by (simp add: ping_raises_def successful_latencies_def)
next
  case (Suc n)
  from Suc.prems have here: "ping e k \<noteq> Returns PingError" and rest: "\<not> ping_errors e (Suc k) n"
    by (simp_all add: ping_errors_Suc)
  show ?case
  proof (cases "ping e k")
    case Raises
    then show ?thesis by (simp add: ping_raises_Suc)
  next
    case (Returns v)
    with here show ?thesis
      by (cases v) (simp_all add: Suc.IH [OF rest] ping_raises_Suc successful_latencies_Suc)
  qed
qed

lemma no_reply_no_errors: "no_reply e k n \<Longrightarrow> \<not> ping_errors e k n"
  by (induction n arbitrary: k) (auto simp: ping_errors_def [of _ _ 0] no_reply_Suc ping_errors_Suc)

lemma no_reply_latencies: "no_reply e k n \<Longrightarrow> successful_latencies e k n = []"
  by (induction n arbitrary: k)
    (auto simp: successful_latencies_def [of _ _ 0] no_reply_Suc successful_latencies_Suc)

lemma count_received_fst:
  "no_reply e k n \<Longrightarrow>
   fst (count_received e n k received) =
     (if ping_raises e k n then Inl CollaboratorError else Inr received)"
proof (induction n arbitrary: k)
  case 0
  show ?case by (simp add: ping_raises_def)
next
  case (Suc n)
  from Suc.prems have here: "ping e k = Returns NoReply \<or> ping e k = Raises"
    and rest: "no_reply e (Suc k) n"
    by (simp_all add: no_reply_Suc)
  from here show ?case
  proof
    assume "ping e k = Raises"
    then show ?thesis by (simp add: ping_raises_Suc)
  next
    assume "ping e k = Returns NoReply"
    then show ?thesis by (simp add: Suc.IH [OF rest] ping_raises_Suc)
  qed
qed

lemma fold_min_Min: "fold min rest (x::rat) = Min (set (x # rest))"
  by (rule Min.set_eq_fold [symmetric])

lemma fold_max_Max: "fold max rest (x::rat) = Max (set (x # rest))"
  by (rule Max.set_eq_fold [symmetric])

lemma timing_stats_nonempty:
  "xs \<noteq> [] \<Longrightarrow>
   timing_stats xs =
     Inr (Timing (round2 (mean xs)) (round2 (Min (set xs))) (round2 (Max (set xs))))"
  by (cases xs) (simp_all add: timing_stats_def fold_min_Min fold_max_Max del: set_simps)

lemma full_loss_rate: "round2 (fmul (fdiv 1 1) 100) = 100"
  by code_simp

lemma all_lost: "n \<noteq> 0 \<Longrightarrow> round2 (fmul (fdiv (of_int n) (of_int n)) 100) = 100"
  using full_loss_rate by (simp add: fdiv_def)

section \<open>Lemmas on the keys of the report\<close>

lemma store_keys:
  "dom (results (store key body t)) = insert key (dom (results t))"
  "abandoned (store key body t) = abandoned t"
  by (simp_all add: store_def split: sum.splits)

lemma measure_latency_keys:
  "\<exists>t'. measure_latency e t = Inr t' \<and> dom (results t') = insert ''latency'' (dom (results t))
     \<and> abandoned t' = abandoned t"
  by (simp add: measure_latency_def store_keys split: prod.splits)

lemma measure_packet_loss_keys:
  "\<exists>t'. measure_packet_loss e t = Inr t' \<and> dom (results t') = insert ''packet_loss'' (dom (results t))
     \<and> abandoned t' = abandoned t"
  by (simp add: measure_packet_loss_def store_keys Let_def split: prod.splits)

lemma measure_jitter_keys:
  "\<exists>t'. measure_jitter e t = Inr t' \<and> dom (results t') = insert ''jitter'' (dom (results t))
     \<and> abandoned t' = abandoned t"
  by (simp add: measure_jitter_def store_keys split: prod.splits)

lemma measure_bandwidth_keys:
  "\<exists>t'. measure_bandwidth e t = Inr t' \<and> dom (results t') = insert ''bandwidth'' (dom (results t))
     \<and> abandoned t' = abandoned t"
  by (simp add: measure_bandwidth_def Let_def split: sum.splits)

lemma measure_dns_resolution_keys:
  "\<exists>t'. measure_dns_resolution e t = Inr t' \<and> dom (results t') = insert ''dns_resolution'' (dom (results t))
     \<and> abandoned t' = abandoned t"
  by (simp add: measure_dns_resolution_def store_keys)

lemma measure_mtu_keys:
  "\<exists>t'. measure_mtu e t = Inr t' \<and> dom (results t') = insert ''mtu'' (dom (results t))"
  by (simp add: measure_mtu_def Let_def split: prod.splits)

lemma pending_ok_kept:
  "pending_ok t \<Longrightarrow> abandoned t' = abandoned t \<Longrightarrow> dom (results t') = insert key (dom (results t)) \<Longrightarrow>
   pending_ok t'"
  unfolding pending_ok_def by (elim disjE) simp_all

lemma pending_ok_mtu:
  "dom (results t') = insert ''mtu'' (dom (results t)) \<Longrightarrow> pending_ok t'"
  unfolding pending_ok_def by simp

lemma method_keys:
  assumes "map_of metric_methods metric = Some method" and "pending_ok t"
  shows "\<exists>t'. method e t = Inr t' \<and> dom (results t') = insert (report_key metric) (dom (results t))
           \<and> pending_ok t'"
proof -
  from assms(1) have "(metric, method) \<in> set metric_methods"
    by (rule map_of_SomeD)
  then have cases: "metric = ''latency'' \<and> method = measure_latency
      \<or> metric = ''packet_loss'' \<and> method = measure_packet_loss
      \<or> metric = ''bandwidth'' \<and> method = measure_bandwidth
      \<or> metric = ''jitter'' \<and> method = measure_jitter
      \<or> metric = ''mtu'' \<and> method = measure_mtu
      \<or> metric = ''dns'' \<and> method = measure_dns_resolution"
    unfolding metric_methods_def by simp
  have kept: "\<exists>t'. m e t = Inr t' \<and> dom (results t') = insert key (dom (results t)) \<and> pending_ok t'"
    if "\<exists>t'. m e t = Inr t' \<and> dom (results t') = insert key (dom (results t)) \<and> abandoned t' = abandoned t"
    for m key
  proof -
    from that obtain t' where t': "m e t = Inr t'" "dom (results t') = insert key (dom (results t))"
      "abandoned t' = abandoned t"
      by (elim exE conjE)
    from pending_ok_kept [OF assms(2) t'(3) t'(2)] t'(1,2) show ?thesis
      by (intro exI [of _ t'] conjI)
  qed
  have mtu: "\<exists>t'. measure_mtu e t = Inr t' \<and> dom (results t') = insert ''mtu'' (dom (results t))
      \<and> pending_ok t'"
  proof -
    from measure_mtu_keys [of e t] obtain t' where
      t': "measure_mtu e t = Inr t'" "dom (results t') = insert ''mtu'' (dom (results t))"
      by (elim exE conjE)
    from pending_ok_mtu [OF t'(2)] t' show ?thesis
      by (intro exI [of _ t'] conjI)
  qed
  from cases show ?thesis
  proof (elim disjE conjE)
    assume "metric = ''latency''" "method = measure_latency"
    with kept [of measure_latency "''latency''", OF measure_latency_keys] show ?thesis
      by (simp add: report_key_def)
  next
    assume "metric = ''packet_loss''" "method = measure_packet_loss"
    with kept [of measure_packet_loss "''packet_loss''", OF measure_packet_loss_keys] show ?thesis
      by (simp add: report_key_def)
  next
    assume "metric = ''bandwidth''" "method = measure_bandwidth"
    with kept [of measure_bandwidth "''bandwidth''", OF measure_bandwidth_keys] show ?thesis
      by (simp add: report_key_def)
  next
    assume "metric = ''jitter''" "method = measure_jitter"
    with kept [of measure_jitter "''jitter''", OF measure_jitter_keys] show ?thesis
      by (simp add: report_key_def)
  next
    assume "metric = ''mtu''" "method = measure_mtu"
    with mtu show ?thesis
      by (simp add: report_key_def)
  next
    assume "metric = ''dns''" "method = measure_dns_resolution"
    with kept [of measure_dns_resolution "''dns_resolution''", OF measure_dns_resolution_keys] show ?thesis
      by (simp add: report_key_def)
  qed
qed

lemma run_selected_keys:
  "set ms \<subseteq> set (map fst metric_methods) \<Longrightarrow> pending_ok t \<Longrightarrow>
   \<exists>t'. run_selected e ms t = Inr t' \<and> dom (results t') = dom (results t) \<union> report_key ` set ms
        \<and> pending_ok t'"
proof (induction ms arbitrary: t)
  case Nil
  then show ?case by simp
next
  case (Cons metric rest)
  from Cons.prems(1) have "metric \<in> fst ` set metric_methods"
    by simp
  then obtain f where m: "map_of metric_methods metric = Some f"
    by (metis weak_map_of_SomeI map_of_eq_None_iff not_Some_eq)
  from method_keys [OF m Cons.prems(2), of e] obtain t1 where
    t1: "f e t = Inr t1" "dom (results t1) = insert (report_key metric) (dom (results t))"
      "pending_ok t1"
    by blast
  from Cons.prems(1) have "set rest \<subseteq> set (map fst metric_methods)"
    by simp
  from Cons.IH [OF this t1(3)] obtain t' where
    "run_selected e rest t1 = Inr t'" "dom (results t') = dom (results t1) \<union> report_key ` set rest"
    "pending_ok t'"
    by blast
  with m t1 show ?case
    by auto
qed

lemma run_all_selected:
  "run_all e (map snd metric_methods) t = run_selected e (map fst metric_methods) t"
  by (simp add: metric_methods_def split: sum.splits)

lemma worker_finishes_keys:
  "pending_ok t \<Longrightarrow> dom (results (worker_finishes t)) = dom (results t) \<and> pending_ok (worker_finishes t)"
  by (auto simp: worker_finishes_def pending_ok_def split: list.splits)

lemma workers_finish_keys:
  "pending_ok t \<Longrightarrow> dom (results ((worker_finishes ^^ j) t)) = dom (results t)
     \<and> pending_ok ((worker_finishes ^^ j) t)"
  by (induction j) (simp_all add: worker_finishes_keys)

section \<open>Properties of the program\<close>

subsection \<open>C1: the keys of the report\<close>

text \<open>
  C1, as amended. A run of \<^verbatim>\<open>main\<close> with a non-empty list of metric names that the
  argument parser accepts returns without raising, and the key set of its report is the set
  of the keys that belong to the requested names: the name itself, except that \<^verbatim>\<open>dns\<close> is
  stored under \<^verbatim>\<open>dns_resolution\<close>. A run without a selection has the six keys. Every such
  key has one entry, populated or \<^verbatim>\<open>None\<close>, and MTU workers that finish late do not
  change the key set.
\<close>

theorem report_keys:
  "(ms \<noteq> [] \<and> set ms \<subseteq> set (map fst metric_methods) \<longrightarrow>
      (\<exists>t. main e target samples (Some ms) = Inr t
          \<and> dom (results t) = report_key ` set ms
          \<and> (\<forall>j. dom (results ((worker_finishes ^^ j) t)) = report_key ` set ms)))
   \<and> (\<exists>t. main e target samples None = Inr t
          \<and> dom (results t) =
              {''latency'', ''packet_loss'', ''bandwidth'', ''jitter'', ''mtu'', ''dns_resolution''}
          \<and> (\<forall>j. dom (results ((worker_finishes ^^ j) t)) = dom (results t)))"
proof -
  have ok: "pending_ok (init target samples)"
    by (simp add: pending_ok_def init_def)
  have empty: "dom (results (init target samples)) = {}"
    by (simp add: init_def)
  have sel: "\<exists>t. main e target samples (Some ms) = Inr t
          \<and> dom (results t) = report_key ` set ms
          \<and> (\<forall>j. dom (results ((worker_finishes ^^ j) t)) = report_key ` set ms)"
    if "ms \<noteq> []" "set ms \<subseteq> set (map fst metric_methods)"
  proof -
    from run_selected_keys [OF that(2) ok, of e] empty obtain t where
      t: "run_selected e ms (init target samples) = Inr t" "dom (results t) = report_key ` set ms"
         "pending_ok t"
      by auto
    with that(1) workers_finish_keys [OF t(3)] show ?thesis
      by (auto simp: main_def)
  qed
  have all: "\<exists>t. main e target samples None = Inr t
          \<and> dom (results t) =
              {''latency'', ''packet_loss'', ''bandwidth'', ''jitter'', ''mtu'', ''dns_resolution''}
          \<and> (\<forall>j. dom (results ((worker_finishes ^^ j) t)) = dom (results t))"
  proof -
    from run_selected_keys [OF subset_refl ok, of e] empty obtain t where
      t: "run_selected e (map fst metric_methods) (init target samples) = Inr t"
         "dom (results t) = report_key ` set (map fst metric_methods)"
         "pending_ok t"
      by auto
    have "report_key ` set (map fst metric_methods) =
        {''latency'', ''packet_loss'', ''bandwidth'', ''jitter'', ''mtu'', ''dns_resolution''}"
      by (simp add: metric_methods_def report_key_def)
    with t workers_finish_keys [OF t(3)] show ?thesis
      by (auto simp: main_def run_all_selected)
  qed
  from sel all show ?thesis
    by blast
qed

text \<open>A run with three metrics, one of them \<^verbatim>\<open>dns\<close>.\<close>

theorem report_keys_witness:
  "\<exists>t. main (sim_env [] (\<lambda>k n. Silent 0)) ''8.8.8.8'' 10 (Some [''mtu'', ''dns'', ''latency'']) = Inr t
      \<and> dom (results t) = {''mtu'', ''dns_resolution'', ''latency''}"
proof -
  have "[''mtu'', ''dns'', ''latency''] \<noteq> []
      \<and> set [''mtu'', ''dns'', ''latency''] \<subseteq> set (map fst metric_methods)"
    by (simp add: metric_methods_def)
  with report_keys [of "[''mtu'', ''dns'', ''latency'']" "sim_env [] (\<lambda>k n. Silent 0)" "''8.8.8.8''" 10]
  show ?thesis
    by (auto simp: report_key_def)
qed

text \<open>
  C1 as stated fails for the name \<^verbatim>\<open>dns\<close>: the report of a run with this one metric has
  no key \<^verbatim>\<open>dns\<close>, and has the key \<^verbatim>\<open>dns_resolution\<close>.
\<close>

theorem dns_key_differs:
  "entry ''dns'' (main (sim_env [] (\<lambda>k n. Silent 0)) ''8.8.8.8'' 10 (Some [''dns''])) = None
   \<and> entry ''dns_resolution'' (main (sim_env [] (\<lambda>k n. Silent 0)) ''8.8.8.8'' 10 (Some [''dns'']))
       = Some (Some (Timing 20 20 20))"
  by code_simp

subsection \<open>C2: the summary of the latency samples\<close>

text \<open>
  C2, as amended. In a run where no ping call returns \<^verbatim>\<open>False\<close>, \<^verbatim>\<open>measure_latency\<close> does
  not raise; when a ping call raises or no ping gets a reply, the entry is absent;
  otherwise the entry holds the mean, the minimum and the maximum of exactly the successful
  latencies, each passed through \<^verbatim>\<open>round(., 2)\<close>. For a single sample \<open>x\<close> (a float) the three
  fields are all \<^verbatim>\<open>round(x, 2)\<close>; for the samples 1, 2, 3 the summary is avg 2, min 1,
  max 3.
\<close>

theorem latency_summary:
  "(\<not> ping_errors e (pings_made t) (nat (sample_size t)) \<longrightarrow>
      (\<exists>t'. measure_latency e t = Inr t' \<and>
         results t' ''latency'' =
           Some (let xs = successful_latencies e (pings_made t) (nat (sample_size t))
                 in if ping_raises e (pings_made t) (nat (sample_size t)) \<or> xs = [] then None
                    else Some (Timing (round2 (mean xs))
                                      (round2 (Min (set xs))) (round2 (Max (set xs)))))))
   \<and> (to_double x = x \<longrightarrow> timing_stats [x] = Inr (Timing (round2 x) (round2 x) (round2 x)))
   \<and> timing_stats [1, 2, 3] = Inr (Timing 2 1 3)"
proof -
  have run: "\<exists>t'. measure_latency e t = Inr t' \<and>
         results t' ''latency'' =
           Some (let xs = successful_latencies e (pings_made t) (nat (sample_size t))
                 in if ping_raises e (pings_made t) (nat (sample_size t)) \<or> xs = [] then None
                    else Some (Timing (round2 (mean xs))
                                      (round2 (Min (set xs))) (round2 (Max (set xs)))))"
    if clean: "\<not> ping_errors e (pings_made t) (nat (sample_size t))"
  proof -
    obtain r k where c: "collect_latencies e (nat (sample_size t)) (pings_made t) [] = (r, k)"
      by (cases "collect_latencies e (nat (sample_size t)) (pings_made t) []")
    have r: "r = (if ping_raises e (pings_made t) (nat (sample_size t)) then Inl CollaboratorError
                  else Inr (successful_latencies e (pings_made t) (nat (sample_size t))))"
      using collect_latencies_fst [OF clean, of "[]"] c by simp
    show ?thesis
      by (simp add: measure_latency_def c r store_def timing_stats_nonempty Let_def)
  qed
  have single: "timing_stats [x] = Inr (Timing (round2 x) (round2 x) (round2 x))"
    if "to_double x = x"
    using that by (simp add: timing_stats_def mean_def)
  have three: "timing_stats [1, 2, 3] = Inr (Timing 2 1 3)"
    by code_simp
  from run single three show ?thesis
    by blast
qed

text \<open>
  A run with four pings, the second of which gets no reply; and the single sample
  0.0009765625, for which the three fields are 0.
\<close>

theorem latency_summary_witness:
  "\<not> ping_errors
       (sim_env [Returns (Delay (1 / 1000)), Returns NoReply, Returns (Delay (1 / 500)),
                 Returns (Delay (3 / 1000))] (\<lambda>k n. Silent 0)) 0 4
   \<and> (\<exists>t'. measure_latency
           (sim_env [Returns (Delay (1 / 1000)), Returns NoReply, Returns (Delay (1 / 500)),
                     Returns (Delay (3 / 1000))] (\<lambda>k n. Silent 0))
           (init ''8.8.8.8'' 4) = Inr t'
        \<and> results t' ''latency'' = Some (Some (Timing 2 1 3)))
   \<and> to_double (1 / 1024) = 1 / 1024
   \<and> timing_stats [1 / 1024] = Inr (Timing 0 0 0)"
proof -
  let ?e = "sim_env [Returns (Delay (1 / 1000)), Returns NoReply, Returns (Delay (1 / 500)),
                     Returns (Delay (3 / 1000))] (\<lambda>k n. Silent 0)"
  let ?t = "init ''8.8.8.8'' 4"
  have k: "pings_made ?t = 0" "nat (sample_size ?t) = 4"
    by (simp_all add: init_def)
  have clean: "\<not> ping_errors ?e 0 4"
    by code_simp
  have a: "successful_latencies ?e 0 4 = [1, 2, 3]"
    by code_simp
  have b: "\<not> ping_raises ?e 0 4"
    by code_simp
  have c: "round2 (mean [1, 2, 3]) = 2" "round2 1 = 1" "round2 3 = 3"
    by code_simp+
  have d: "to_double (1 / 1024) = 1 / 1024" "round2 (1 / 1024) = 0"
    by code_simp+
  note inst = latency_summary [of ?e ?t "1 / 1024", unfolded k]
  from inst [THEN conjunct1] clean have
    "\<exists>t'. measure_latency ?e ?t = Inr t' \<and> results t' ''latency'' = Some (Some (Timing 2 1 3))"
    by (simp add: a b c)
  moreover from inst [THEN conjunct2, THEN conjunct1] d have
    "timing_stats [1 / 1024] = Inr (Timing 0 0 0)"
    by simp
  ultimately show ?thesis
    using clean d(1) by blast
qed

text \<open>
  C2 as stated fails: for the single sample 0.0009765625 ms the fields are not the sample.
\<close>

theorem singleton_not_unrounded:
  "timing_stats [1 / 1024] \<noteq> Inr (Timing (1 / 1024) (1 / 1024) (1 / 1024))"
  by code_simp

subsection \<open>C3: jitter\<close>

text \<open>
  C3 fails on the code. A ping that fails with \<^verbatim>\<open>False\<close> passes the test
  \<^verbatim>\<open>result is not None\<close> and enters the latencies as 0. With one ping of 10 ms and one
  failed ping there is a single successful sample, and the jitter entry is populated, with
  the difference 10 between the sample and the failed ping; with two failed pings there is
  no successful sample, and the entry is populated with zeros.
\<close>

theorem jitter_counts_failed_pings:
  "entry ''jitter''
     (measure_jitter (sim_env [Returns (Delay (1 / 100)), Returns PingError] (\<lambda>k n. Silent 0))
        (init ''8.8.8.8'' 2))
     = Some (Some (Timing 10 10 10))
   \<and> entry ''jitter''
     (measure_jitter (sim_env [Returns PingError, Returns PingError] (\<lambda>k n. Silent 0))
        (init ''8.8.8.8'' 2))
     = Some (Some (Timing 0 0 0))"
  by code_simp

subsection \<open>C4: no successful sample\<close>

text \<open>
  C4, as amended. When each ping of a measurement gets no reply (\<^verbatim>\<open>None\<close>) or raises, no
  method raises to its caller, and the latency and jitter entries are absent. The packet
  loss entry is absent exactly when the sample size is 0 or a ping call raises; otherwise
  it is populated, with a loss rate of 100 percent and 0 packets received.
\<close>

theorem no_reply_results:
  assumes "no_reply e (pings_made t) (nat (sample_size t))"
  shows "(\<exists>t'. measure_latency e t = Inr t' \<and> results t' ''latency'' = Some None)
       \<and> (\<exists>t'. measure_jitter e t = Inr t' \<and> results t' ''jitter'' = Some None)
       \<and> (\<exists>t'. measure_packet_loss e t = Inr t' \<and>
             results t' ''packet_loss'' =
               (if sample_size t = 0 \<or> ping_raises e (pings_made t) (nat (sample_size t))
                then Some None
                else Some (Some (PacketLoss 100 (sample_size t) 0))))"
proof -
  let ?k = "pings_made t" and ?n = "nat (sample_size t)"
  obtain r k where c: "collect_latencies e ?n ?k [] = (r, k)"
    by (cases "collect_latencies e ?n ?k []")
  have r: "r = (if ping_raises e ?k ?n then Inl CollaboratorError else Inr [])"
    using collect_latencies_fst [OF no_reply_no_errors [OF assms], of "[]"] c
      no_reply_latencies [OF assms] by simp
  obtain r' k' where c': "count_received e ?n ?k 0 = (r', k')"
    by (cases "count_received e ?n ?k 0")
  have r': "r' = (if ping_raises e ?k ?n then Inl CollaboratorError else Inr 0)"
    using count_received_fst [OF assms, of 0] c' by simp
  have "\<exists>t'. measure_latency e t = Inr t' \<and> results t' ''latency'' = Some None"
    by (simp add: measure_latency_def c r store_def)
  moreover have "\<exists>t'. measure_jitter e t = Inr t' \<and> results t' ''jitter'' = Some None"
    by (simp add: measure_jitter_def c r store_def)
  moreover have "\<exists>t'. measure_packet_loss e t = Inr t' \<and>
             results t' ''packet_loss'' =
               (if sample_size t = 0 \<or> ping_raises e ?k ?n
                then Some None
                else Some (Some (PacketLoss 100 (sample_size t) 0)))"
    by (simp add: measure_packet_loss_def c' r' store_def all_lost Let_def)
  ultimately show ?thesis
    by blast
qed

text \<open>Five pings that all get no reply.\<close>

theorem no_reply_results_witness:
  "no_reply (sim_env [] (\<lambda>k n. Silent 0)) 0 5
   \<and> (\<exists>t'. measure_latency (sim_env [] (\<lambda>k n. Silent 0)) (init ''8.8.8.8'' 5) = Inr t'
          \<and> results t' ''latency'' = Some None)
   \<and> (\<exists>t'. measure_jitter (sim_env [] (\<lambda>k n. Silent 0)) (init ''8.8.8.8'' 5) = Inr t'
          \<and> results t' ''jitter'' = Some None)
   \<and> (\<exists>t'. measure_packet_loss (sim_env [] (\<lambda>k n. Silent 0)) (init ''8.8.8.8'' 5) = Inr t'
          \<and> results t' ''packet_loss'' = Some (Some (PacketLoss 100 5 0)))"
proof -
  let ?e = "sim_env [] (\<lambda>k n. Silent 0)"
  have h0: "no_reply ?e 0 5"
    by code_simp
  have h: "no_reply ?e (pings_made (init ''8.8.8.8'' 5)) (nat (sample_size (init ''8.8.8.8'' 5)))"
    by (simp add: init_def h0)
  have b: "\<not> ping_raises ?e 0 5"
    by code_simp
  from no_reply_results [OF h] h0 b show ?thesis
    by (simp add: init_def)
qed

text \<open>
  C4 as stated fails for packet loss: with five pings that all get no reply the entry is
  populated.
\<close>

theorem packet_loss_populated_without_success:
  "entry ''packet_loss'' (measure_packet_loss (sim_env [] (\<lambda>k n. Silent 0)) (init ''8.8.8.8'' 5))
     = Some (Some (PacketLoss 100 5 0))
   \<and> entry ''packet_loss'' (measure_packet_loss (sim_env [] (\<lambda>k n. Silent 0)) (init ''8.8.8.8'' 5))
     \<noteq> Some None"
  by code_simp

subsection \<open>C5: the MTU search\<close>

text \<open>
  C5 fails on the code. On a path that replies to packets of at most 1000 bytes and to none
  above, the first probe, sent for the candidate size 1500, is a packet of 40 bytes and is
  answered: the search returns 1500, and \<^verbatim>\<open>measure_mtu\<close> stores it.
\<close>

theorem mtu_probe_without_payload:
  "measure_mtu_with_timeout
       (sim_env [] (\<lambda>k n. if n \<le> 1000 then Replied (1 / 20) else Silent 1))
     = (Inr 1500, 1 / 20)
   \<and> entry ''mtu''
        (measure_mtu (sim_env [] (\<lambda>k n. if n \<le> 1000 then Replied (1 / 20) else Silent 1))
           (init ''8.8.8.8'' 10))
     = Some (Some (MtuSize 1500))"
  by code_simp

subsection \<open>C6: the MTU search that exceeds its time\<close>


subsection \<open>C8: a sample size of 0\<close>

text \<open>
  C8. With a sample size of 0, \<^verbatim>\<open>measure_latency\<close>, \<^verbatim>\<open>measure_packet_loss\<close> and
  \<^verbatim>\<open>measure_jitter\<close> return without raising and store an absent entry each, and so does
  a run of \<^verbatim>\<open>main\<close> with these three metrics.
\<close>

theorem zero_samples_absent:
  assumes "sample_size t = 0"
  shows "(\<exists>t'. measure_latency e t = Inr t' \<and> results t' ''latency'' = Some None)
       \<and> (\<exists>t'. measure_packet_loss e t = Inr t' \<and> results t' ''packet_loss'' = Some None)
       \<and> (\<exists>t'. measure_jitter e t = Inr t' \<and> results t' ''jitter'' = Some None)
       \<and> (\<exists>t'. main e host 0 (Some [''latency'', ''packet_loss'', ''jitter'']) = Inr t'
              \<and> results t' ''latency'' = Some None
              \<and> results t' ''packet_loss'' = Some None
              \<and> results t' ''jitter'' = Some None)"
  using assms
  by (simp add: measure_latency_def measure_packet_loss_def measure_jitter_def store_def
      main_def init_def metric_methods_def)

text \<open>A tester with no samples on a machine where every ping would raise.\<close>

theorem zero_samples_absent_witness:
  "sample_size (init ''8.8.8.8'' 0) = 0
   \<and> (\<exists>t'. measure_latency broken_env (init ''8.8.8.8'' 0) = Inr t' \<and> results t' ''latency'' = Some None)
   \<and> (\<exists>t'. measure_packet_loss broken_env (init ''8.8.8.8'' 0) = Inr t' \<and> results t' ''packet_loss'' = Some None)
   \<and> (\<exists>t'. measure_jitter broken_env (init ''8.8.8.8'' 0) = Inr t' \<and> results t' ''jitter'' = Some None)"
proof -
  have h: "sample_size (init ''8.8.8.8'' 0) = 0"
    by (simp add: init_def)
  from zero_samples_absent [OF h, of broken_env] h show ?thesis
    by blast
qed

subsection \<open>C9: the write of an abandoned worker\<close>

text \<open>
  C9 fails on the code. Nine probes without a reply take 1.05 seconds each and the tenth,
  for size 1410, gets its reply after 0.6 seconds: the search ends after 10.05 seconds.
  \<^verbatim>\<open>measure_mtu\<close> has stored \<^verbatim>\<open>None\<close> at 10 seconds and returned; the worker then stores
  the size 1410 in the same entry.
\<close>

theorem late_reply_overwrites:
  "measure_mtu_with_timeout (sim_env [] (\<lambda>k n. if k < 9 then Silent (21 / 20) else Replied (3 / 5)))
     = (Inr 1410, 201 / 20)
   \<and> entry ''mtu''
        (measure_mtu (sim_env [] (\<lambda>k n. if k < 9 then Silent (21 / 20) else Replied (3 / 5)))
           (init ''8.8.8.8'' 10))
     = Some None
   \<and> entry ''mtu''
        (map_sum id worker_finishes
          (measure_mtu (sim_env [] (\<lambda>k n. if k < 9 then Silent (21 / 20) else Replied (3 / 5)))
             (init ''8.8.8.8'' 10)))
     = Some (Some (MtuSize 1410))"
  by code_simp

subsection \<open>C10: the bandwidth entry\<close>

text \<open>
  C10. \<^verbatim>\<open>measure_bandwidth\<close> never raises and always stores a record with the two fields
  \<^verbatim>\<open>download_mbps\<close> and \<^verbatim>\<open>upload_mbps\<close>, never an absent entry. When no server is found
  both fields are absent; otherwise each field is absent exactly when its own transfer
  failed. On a machine where every external call fails, the five other entries are absent
  and the bandwidth entry is a record.
\<close>

theorem bandwidth_entry_is_record:
  "(\<exists>t' d u. measure_bandwidth e t = Inr t'
     \<and> results t' ''bandwidth'' = Some (Some (Bandwidth d u))
     \<and> (speedtest_new e = Raises \<or> get_best_server e = Raises \<longrightarrow> d = None \<and> u = None)
     \<and> (speedtest_new e \<noteq> Raises \<and> get_best_server e \<noteq> Raises \<longrightarrow>
          (d = None \<longleftrightarrow> download e = Raises) \<and> (u = None \<longleftrightarrow> upload e = Raises)))
   \<and> map (\<lambda>key. entry key (main broken_env ''8.8.8.8'' 10 None))
         [''latency'', ''packet_loss'', ''bandwidth'', ''jitter'', ''mtu'', ''dns_resolution'']
       = [Some None, Some None, Some (Some (Bandwidth None None)), Some None, Some None, Some None]"
proof -
  have "\<exists>t' d u. measure_bandwidth e t = Inr t'
     \<and> results t' ''bandwidth'' = Some (Some (Bandwidth d u))
     \<and> (speedtest_new e = Raises \<or> get_best_server e = Raises \<longrightarrow> d = None \<and> u = None)
     \<and> (speedtest_new e \<noteq> Raises \<and> get_best_server e \<noteq> Raises \<longrightarrow>
          (d = None \<longleftrightarrow> download e = Raises) \<and> (u = None \<longleftrightarrow> upload e = Raises))"
    by (auto simp add: measure_bandwidth_def split: outcome.splits)
  moreover have "map (\<lambda>key. entry key (main broken_env ''8.8.8.8'' 10 None))
         [''latency'', ''packet_loss'', ''bandwidth'', ''jitter'', ''mtu'', ''dns_resolution'']
       = [Some None, Some None, Some (Some (Bandwidth None None)), Some None, Some None, Some None]"
    by code_simp
  ultimately show ?thesis
    by blast
qed

text \<open>A speed test whose download succeeds and whose upload fails.\<close>

theorem bandwidth_entry_is_record_witness:
  "\<exists>t' d u. measure_bandwidth (sim_env [] (\<lambda>k n. Silent 0)) (init ''8.8.8.8'' 10) = Inr t'
     \<and> results t' ''bandwidth'' = Some (Some (Bandwidth d u)) \<and> d \<noteq> None \<and> u = None"
  using bandwidth_entry_is_record [of "sim_env [] (\<lambda>k n. Silent 0)" "init ''8.8.8.8'' 10"]
  by (simp add: sim_env_def)

end
